theory Spec2Isabelle
  imports Main
begin

section \<open>The local builder of skaffold: \<^verbatim>\<open>pkg/skaffold/build/local/local.go\<close>\<close>

text \<open>
  The file holds the methods \<^verbatim>\<open>Build\<close>, \<^verbatim>\<open>buildArtifact\<close>,
  \<^verbatim>\<open>runBuildForArtifact\<close>, \<^verbatim>\<open>buildJib\<close>, \<^verbatim>\<open>DependenciesForArtifact\<close>,
  \<^verbatim>\<open>getImageIDForTag\<close> and \<^verbatim>\<open>SyncMap\<close> of the type \<^verbatim>\<open>*Builder\<close>.
  Every Go function returning \<^verbatim>\<open>(T, error)\<close> is a function returning a pair of a value
  and an \<open>error option\<close> (\<open>None\<close> is \<^verbatim>\<open>nil\<close>). A pointer that may be \<^verbatim>\<open>nil\<close>
  is an \<open>option\<close>. The receiver \<^verbatim>\<open>b\<close> is mutated in place and the collaborators act on the
  daemon, the registry and the file system: both are threaded through every function as a
  \<open>session\<close>.
\<close>

subsection \<open>Data of the schema package\<close>

text \<open>
  \<^verbatim>\<open>latest.DockerArtifact\<close>: the file reads its fields \<^verbatim>\<open>DockerfilePath\<close> and
  \<^verbatim>\<open>BuildArgs\<close> (a \<^verbatim>\<open>map[string]*string\<close>).
\<close>

record DockerArtifact =
  DockerfilePath :: string
  BuildArgs :: "string \<rightharpoonup> string option"

text \<open>
  Modelled from the spec: the declarations of \<^verbatim>\<open>latest.BazelArtifact\<close>,
  \<^verbatim>\<open>latest.JibArtifact\<close>, \<^verbatim>\<open>latest.CustomArtifact\<close> and \<^verbatim>\<open>latest.BuildpackArtifact\<close>
  are outside this file, which only tests the pointers against \<^verbatim>\<open>nil\<close> and hands them on.
  Each is a "backend-specific configuration": an opaque payload.
\<close>

datatype BazelArtifact = BazelConfig string
datatype JibArtifact = JibConfig string
datatype CustomArtifact = CustomConfig string
datatype BuildpackArtifact = BuildpackConfig string

text \<open>
  \<^verbatim>\<open>latest.ArtifactType\<close>, embedded in \<^verbatim>\<open>latest.Artifact\<close>: one pointer for each of
  the five variants this file switches on. \<^verbatim>\<open>artifact.DockerArtifact\<close> in the source is
  \<open>DockerArtifact (ArtifactType artifact)\<close> here.
\<close>

record ArtifactType =
  DockerArtifact :: "DockerArtifact option"
  BazelArtifact :: "BazelArtifact option"
  JibArtifact :: "JibArtifact option"
  CustomArtifact :: "CustomArtifact option"
  BuildpackArtifact :: "BuildpackArtifact option"

record Artifact =
  ImageName :: string
  Workspace :: string
  ArtifactType :: ArtifactType

text \<open>\<^verbatim>\<open>build.Artifact\<close>, the build result: the artifact's image name and its final reference.\<close>

record build_Artifact =
  build_ImageName :: string
  build_Tag :: string

text \<open>
  Modelled from the spec: \<^verbatim>\<open>jib.PluginType\<close> is declared outside this file; it has "two
  known project-tooling flavors", \<^verbatim>\<open>jib.JibMaven\<close> and \<^verbatim>\<open>jib.JibGradle\<close>, and the
  \<^verbatim>\<open>default\<close> branch of \<^verbatim>\<open>buildJib\<close> takes every other value.
\<close>

datatype PluginType = JibMaven | JibGradle | PluginTypeOther int

text \<open>\<^verbatim>\<open>types.ImageInspect\<close> of the docker client: the file reads its field \<^verbatim>\<open>ID\<close>.\<close>

record ImageInspect =
  ID :: string

text \<open>The handles \<^verbatim>\<open>context.Context\<close> and \<^verbatim>\<open>io.Writer\<close>, passed on and never looked into.\<close>

datatype Context = Context nat
datatype Writer = Writer nat

subsection \<open>Errors\<close>

text \<open>
  An error built by \<^verbatim>\<open>fmt.Errorf\<close> or \<^verbatim>\<open>errors.Errorf\<close> keeps its format string and its
  arguments; \<^verbatim>\<open>errors.Wrap (err, msg)\<close> keeps the cause and the message;
  \<^verbatim>\<open>build.ErrSyncMapNotSupported{}\<close> is a kind of its own; \<open>Foreign\<close> is any error a
  collaborator makes.
\<close>

datatype fmt_arg = ArgString string | ArgArtifactType ArtifactType

datatype error =
    Errorf string "fmt_arg list"
  | Wrap error string
  | ErrSyncMapNotSupported
  | Foreign string

subsection \<open>The builder and the session\<close>

text \<open>
  The fields of \<^verbatim>\<open>Builder\<close> the file reads: \<^verbatim>\<open>insecureRegistries\<close> is a
  \<^verbatim>\<open>map[string]bool\<close>, \<^verbatim>\<open>builtImages\<close> the list the file appends to. The field
  \<^verbatim>\<open>localDocker\<close>, the client of the daemon, is among the collaborators below.
\<close>

record Builder =
  localCluster :: bool
  kubeContext :: string
  pushImages :: bool
  insecureRegistries :: "string \<rightharpoonup> bool"
  builtImages :: "string list"

text \<open>One entry for each call that leaves the file and acts on the world, with the arguments
  handed over (the maps of build arguments and of insecure registries are left out of the
  entry).\<close>

datatype call =
    Call_buildDocker Context Writer Artifact string
  | Call_buildBazel Context Writer Artifact string
  | Call_buildCustom Context Writer Artifact string
  | Call_buildBuildpack Context Writer Artifact string
  | Call_DeterminePluginType string "JibArtifact option"
  | Call_buildJibMaven Context Writer string "JibArtifact option" string
  | Call_buildJibGradle Context Writer string "JibArtifact option" string
  | Call_ImageInspectWithRaw Context string
  | Call_TagWithImageID Context string string
  | Call_Close
  | Call_Fprintf Writer string
  | Call_Warnf string
  | Call_docker_GetDependencies Context string string
  | Call_bazel_GetDependencies Context string "BazelArtifact option"
  | Call_jib_GetDependencies Context string "JibArtifact option"
  | Call_custom_GetDependencies Context string "CustomArtifact option"
  | Call_buildpacks_GetDependencies Context string "BuildpackArtifact option"
  | Call_docker_SyncMap Context string string

text \<open>
  The session: the receiver \<^verbatim>\<open>b\<close>, the world outside the process (of any type \<open>'w\<close>),
  and the calls made so far, oldest first.
\<close>

record 'w session =
  builder :: Builder
  world :: 'w
  calls :: "call list"

text \<open>
  The collaborators: functions this file calls and does not define. \<^verbatim>\<open>buildDocker\<close>,
  \<^verbatim>\<open>buildBazel\<close>, \<^verbatim>\<open>buildJibMaven\<close>, \<^verbatim>\<open>buildJibGradle\<close>, \<^verbatim>\<open>buildCustom\<close> and
  \<^verbatim>\<open>buildBuildpack\<close> are methods of \<^verbatim>\<open>*Builder\<close> in sibling files;
  \<^verbatim>\<open>ImageInspectWithRaw\<close>, \<^verbatim>\<open>TagWithImageID\<close> and \<^verbatim>\<open>Close\<close> belong to
  \<^verbatim>\<open>b.localDocker\<close>; the others are functions of the packages \<^verbatim>\<open>jib\<close>,
  \<^verbatim>\<open>docker\<close>, \<^verbatim>\<open>bazel\<close>, \<^verbatim>\<open>custom\<close> and \<^verbatim>\<open>buildpacks\<close>. Each reads and changes
  the world and returns what the Go function returns. \<^verbatim>\<open>util.AbsolutePaths\<close>, of the
  package \<^verbatim>\<open>util\<close>, returns a list of paths and no error: it may read the world (the
  working directory) and leaves it as it is. Nothing is fixed here about the paths it
  returns.

  The build methods of the sibling files get the world only, not the receiver: the
  Built-Image Registry is changed by the code of this file and by no other (the spec has it
  "mutated only by the Backend Dispatcher").
\<close>

record 'w collaborators =
  buildDocker :: "Context \<Rightarrow> Writer \<Rightarrow> Artifact \<Rightarrow> string \<Rightarrow> 'w \<Rightarrow> (string \<times> error option) \<times> 'w"
  buildBazel :: "Context \<Rightarrow> Writer \<Rightarrow> Artifact \<Rightarrow> string \<Rightarrow> 'w \<Rightarrow> (string \<times> error option) \<times> 'w"
  buildCustom :: "Context \<Rightarrow> Writer \<Rightarrow> Artifact \<Rightarrow> string \<Rightarrow> 'w \<Rightarrow> (string \<times> error option) \<times> 'w"
  buildBuildpack :: "Context \<Rightarrow> Writer \<Rightarrow> Artifact \<Rightarrow> string \<Rightarrow> 'w \<Rightarrow> (string \<times> error option) \<times> 'w"
  DeterminePluginType :: "string \<Rightarrow> JibArtifact option \<Rightarrow> 'w \<Rightarrow> (PluginType \<times> error option) \<times> 'w"
  buildJibMaven :: "Context \<Rightarrow> Writer \<Rightarrow> string \<Rightarrow> JibArtifact option \<Rightarrow> string \<Rightarrow> 'w
    \<Rightarrow> (string \<times> error option) \<times> 'w"
  buildJibGradle :: "Context \<Rightarrow> Writer \<Rightarrow> string \<Rightarrow> JibArtifact option \<Rightarrow> string \<Rightarrow> 'w
    \<Rightarrow> (string \<times> error option) \<times> 'w"
  ImageInspectWithRaw :: "Context \<Rightarrow> string \<Rightarrow> 'w \<Rightarrow> (ImageInspect \<times> string \<times> error option) \<times> 'w"
  TagWithImageID :: "Context \<Rightarrow> string \<Rightarrow> string \<Rightarrow> 'w \<Rightarrow> (string \<times> error option) \<times> 'w"
  Close :: "'w \<Rightarrow> error option \<times> 'w"
  docker_GetDependencies :: "Context \<Rightarrow> string \<Rightarrow> string \<Rightarrow> (string \<rightharpoonup> string option)
    \<Rightarrow> (string \<rightharpoonup> bool) \<Rightarrow> 'w \<Rightarrow> (string list \<times> error option) \<times> 'w"
  bazel_GetDependencies :: "Context \<Rightarrow> string \<Rightarrow> BazelArtifact option \<Rightarrow> 'w
    \<Rightarrow> (string list \<times> error option) \<times> 'w"
  jib_GetDependencies :: "Context \<Rightarrow> string \<Rightarrow> JibArtifact option \<Rightarrow> 'w
    \<Rightarrow> (string list \<times> error option) \<times> 'w"
  custom_GetDependencies :: "Context \<Rightarrow> string \<Rightarrow> CustomArtifact option \<Rightarrow> (string \<rightharpoonup> bool) \<Rightarrow> 'w
    \<Rightarrow> (string list \<times> error option) \<times> 'w"
  buildpacks_GetDependencies :: "Context \<Rightarrow> string \<Rightarrow> BuildpackArtifact option \<Rightarrow> 'w
    \<Rightarrow> (string list \<times> error option) \<times> 'w"
  docker_SyncMap :: "Context \<Rightarrow> string \<Rightarrow> string \<Rightarrow> (string \<rightharpoonup> string option)
    \<Rightarrow> (string \<rightharpoonup> bool) \<Rightarrow> 'w \<Rightarrow> ((string \<rightharpoonup> string list) option \<times> error option) \<times> 'w"
  AbsolutePaths :: "string \<Rightarrow> string list \<Rightarrow> 'w \<Rightarrow> string list"

text \<open>A call to a collaborator: it runs on the world, and the call is recorded.\<close>

definition invoke :: "call \<Rightarrow> ('w \<Rightarrow> 'r \<times> 'w) \<Rightarrow> 'w session \<Rightarrow> 'r \<times> 'w session" where
  "invoke c f s =
     (case f (world s) of (r, w') \<Rightarrow> (r, s\<lparr>world := w', calls := calls s @ [c]\<rparr>))"

text \<open>A line written to the output sink or to the log: the call is recorded.\<close>

definition emit :: "call \<Rightarrow> 'w session \<Rightarrow> 'w session" where
  "emit c s = s\<lparr>calls := calls s @ [c]\<rparr>"

text \<open>\<^verbatim>\<open>b.builtImages = append (b.builtImages, imageID)\<close>\<close>

definition append_builtImages :: "string \<Rightarrow> 'w session \<Rightarrow> 'w session" where
  "append_builtImages imageID s =
     s\<lparr>builder := (builder s)\<lparr>builtImages := builtImages (builder s) @ [imageID]\<rparr>\<rparr>"

subsection \<open>\<^verbatim>\<open>buildJib\<close>\<close>

definition buildJib ::
  "'w collaborators \<Rightarrow> Context \<Rightarrow> Writer \<Rightarrow> Artifact \<Rightarrow> string \<Rightarrow> 'w session
    \<Rightarrow> (string \<times> error option) \<times> 'w session" where
  "buildJib env ctx out artifact tag s =
     (case invoke (Call_DeterminePluginType (Workspace artifact) (JibArtifact (ArtifactType artifact)))
             (DeterminePluginType env (Workspace artifact) (JibArtifact (ArtifactType artifact))) s of
        ((t, Some err), s1) \<Rightarrow> (('''', Some err), s1)
      | ((t, None), s1) \<Rightarrow>
          (case t of
             JibMaven \<Rightarrow>
               invoke (Call_buildJibMaven ctx out (Workspace artifact) (JibArtifact (ArtifactType artifact)) tag)
                 (buildJibMaven env ctx out (Workspace artifact) (JibArtifact (ArtifactType artifact)) tag) s1
           | JibGradle \<Rightarrow>
               invoke (Call_buildJibGradle ctx out (Workspace artifact) (JibArtifact (ArtifactType artifact)) tag)
                 (buildJibGradle env ctx out (Workspace artifact) (JibArtifact (ArtifactType artifact)) tag) s1
           | PluginTypeOther n \<Rightarrow>
               (('''', Some (Errorf ''Unable to determine Jib builder type for %s''
                                [ArgString (Workspace artifact)])), s1)))"

subsection \<open>\<^verbatim>\<open>runBuildForArtifact\<close>\<close>

definition runBuildForArtifact ::
  "'w collaborators \<Rightarrow> Context \<Rightarrow> Writer \<Rightarrow> Artifact \<Rightarrow> string \<Rightarrow> 'w session
    \<Rightarrow> (string \<times> error option) \<times> 'w session" where
  "runBuildForArtifact env ctx out artifact tag s =
     (if DockerArtifact (ArtifactType artifact) \<noteq> None then
        invoke (Call_buildDocker ctx out artifact tag) (buildDocker env ctx out artifact tag) s
      else if BazelArtifact (ArtifactType artifact) \<noteq> None then
        invoke (Call_buildBazel ctx out artifact tag) (buildBazel env ctx out artifact tag) s
      else if JibArtifact (ArtifactType artifact) \<noteq> None then
        buildJib env ctx out artifact tag s
      else if CustomArtifact (ArtifactType artifact) \<noteq> None then
        invoke (Call_buildCustom ctx out artifact tag) (buildCustom env ctx out artifact tag) s
      else if BuildpackArtifact (ArtifactType artifact) \<noteq> None then
        invoke (Call_buildBuildpack ctx out artifact tag) (buildBuildpack env ctx out artifact tag) s
      else
        (('''', Some (Errorf ''undefined artifact type: %+v''
                        [ArgArtifactType (ArtifactType artifact)])), s))"

subsection \<open>\<^verbatim>\<open>getImageIDForTag\<close>\<close>

definition getImageIDForTag ::
  "'w collaborators \<Rightarrow> Context \<Rightarrow> string \<Rightarrow> 'w session \<Rightarrow> (string \<times> error option) \<times> 'w session" where
  "getImageIDForTag env ctx tag s =
     (case invoke (Call_ImageInspectWithRaw ctx tag) (ImageInspectWithRaw env ctx tag) s of
        ((insp, raw, Some err), s1) \<Rightarrow> (('''', Some (Wrap err ''inspecting image'')), s1)
      | ((insp, raw, None), s1) \<Rightarrow> ((ID insp, None), s1))"

subsection \<open>\<^verbatim>\<open>buildArtifact\<close>\<close>

definition buildArtifact ::
  "'w collaborators \<Rightarrow> Context \<Rightarrow> Writer \<Rightarrow> Artifact \<Rightarrow> string \<Rightarrow> 'w session
    \<Rightarrow> (string \<times> error option) \<times> 'w session" where
  "buildArtifact env ctx out artifact tag s =
     (case runBuildForArtifact env ctx out artifact tag s of
        ((digestOrImageID, Some err), s1) \<Rightarrow> (('''', Some (Wrap err ''build artifact'')), s1)
      | ((digestOrImageID, None), s1) \<Rightarrow>
          if pushImages (builder s1) then
            ((tag @ ''@'' @ digestOrImageID, None),
             (if DockerArtifact (ArtifactType artifact) \<noteq> None then
                (case getImageIDForTag env ctx tag s1 of
                   ((imageID, err), s2) \<Rightarrow>
                     let s3 = (if err \<noteq> None
                               then emit (Call_Warnf
                                 ''unable to inspect image: built images may not be cleaned up correctly by skaffold'') s2
                               else s2)
                     in if imageID \<noteq> '''' then append_builtImages imageID s3 else s3)
              else s1))
          else
            invoke (Call_TagWithImageID ctx tag digestOrImageID)
              (TagWithImageID env ctx tag digestOrImageID)
              (append_builtImages digestOrImageID s1))"

subsection \<open>\<^verbatim>\<open>DependenciesForArtifact\<close>\<close>

text \<open>Lines 142 to 146, after the \<^verbatim>\<open>switch\<close>: the backend's error as it is, or the
  paths as \<^verbatim>\<open>util.AbsolutePaths\<close> returns them for the artifact's workspace.\<close>

definition DependenciesForArtifact_return ::
  "'w collaborators \<Rightarrow> Artifact \<Rightarrow> (string list \<times> error option) \<times> 'w session
    \<Rightarrow> (string list \<times> error option) \<times> 'w session" where
  "DependenciesForArtifact_return env a r =
     (case r of
        ((paths, Some err), s1) \<Rightarrow> (([], Some err), s1)
      | ((paths, None), s1) \<Rightarrow> ((AbsolutePaths env (Workspace a) paths (world s1), None), s1))"

definition DependenciesForArtifact ::
  "'w collaborators \<Rightarrow> Context \<Rightarrow> Artifact \<Rightarrow> 'w session
    \<Rightarrow> (string list \<times> error option) \<times> 'w session" where
  "DependenciesForArtifact env ctx a s =
     (case DockerArtifact (ArtifactType a) of
        Some d \<Rightarrow>
          DependenciesForArtifact_return env a
            (invoke (Call_docker_GetDependencies ctx (Workspace a) (DockerfilePath d))
               (docker_GetDependencies env ctx (Workspace a) (DockerfilePath d) (BuildArgs d)
                  (insecureRegistries (builder s))) s)
      | None \<Rightarrow>
          if BazelArtifact (ArtifactType a) \<noteq> None then
            DependenciesForArtifact_return env a
              (invoke (Call_bazel_GetDependencies ctx (Workspace a) (BazelArtifact (ArtifactType a)))
                 (bazel_GetDependencies env ctx (Workspace a) (BazelArtifact (ArtifactType a))) s)
          else if JibArtifact (ArtifactType a) \<noteq> None then
            DependenciesForArtifact_return env a
              (invoke (Call_jib_GetDependencies ctx (Workspace a) (JibArtifact (ArtifactType a)))
                 (jib_GetDependencies env ctx (Workspace a) (JibArtifact (ArtifactType a))) s)
          else if CustomArtifact (ArtifactType a) \<noteq> None then
            DependenciesForArtifact_return env a
              (invoke (Call_custom_GetDependencies ctx (Workspace a) (CustomArtifact (ArtifactType a)))
                 (custom_GetDependencies env ctx (Workspace a) (CustomArtifact (ArtifactType a))
                    (insecureRegistries (builder s))) s)
          else if BuildpackArtifact (ArtifactType a) \<noteq> None then
            DependenciesForArtifact_return env a
              (invoke (Call_buildpacks_GetDependencies ctx (Workspace a) (BuildpackArtifact (ArtifactType a)))
                 (buildpacks_GetDependencies env ctx (Workspace a) (BuildpackArtifact (ArtifactType a))) s)
          else
            (([], Some (Errorf ''undefined artifact type: %+v'' [ArgArtifactType (ArtifactType a)])), s))"

subsection \<open>\<^verbatim>\<open>SyncMap\<close>\<close>

definition SyncMap ::
  "'w collaborators \<Rightarrow> Context \<Rightarrow> Artifact \<Rightarrow> 'w session
    \<Rightarrow> ((string \<rightharpoonup> string list) option \<times> error option) \<times> 'w session" where
  "SyncMap env ctx a s =
     (case DockerArtifact (ArtifactType a) of
        None \<Rightarrow> ((None, Some ErrSyncMapNotSupported), s)
      | Some d \<Rightarrow>
          invoke (Call_docker_SyncMap ctx (Workspace a) (DockerfilePath d))
            (docker_SyncMap env ctx (Workspace a) (DockerfilePath d) (BuildArgs d)
               (insecureRegistries (builder s))) s)"

subsection \<open>\<^verbatim>\<open>Build\<close>\<close>

text \<open>
  Modelled from the spec: \<^verbatim>\<open>tag.ImageTags\<close> is declared outside this file; it is "a tag
  assignment per artifact", "one-to-one with artifacts by name": every image name has its tag.
\<close>

type_synonym ImageTags = "string \<Rightarrow> string"

text \<open>
  Modelled from the spec: \<^verbatim>\<open>build.InSequence\<close> is a function of the package
  \<^verbatim>\<open>build\<close>, outside this file. It "builds artifacts strictly in the given order, one at
  a time", "on the first backend failure, aborts remaining artifacts and returns the error",
  and "returns the ordered list of Build Results for all artifacts completed before any
  failure". The error is the one the callback returned; the spec has it write nothing to
  the output sink.
\<close>

fun InSequence ::
  "Context \<Rightarrow> Writer \<Rightarrow> ImageTags \<Rightarrow> Artifact list
    \<Rightarrow> (Context \<Rightarrow> Writer \<Rightarrow> Artifact \<Rightarrow> string \<Rightarrow> 's \<Rightarrow> (string \<times> error option) \<times> 's)
    \<Rightarrow> 's \<Rightarrow> (build_Artifact list \<times> error option) \<times> 's" where
  "InSequence ctx out tags [] artifactBuilder s = (([], None), s)"
| "InSequence ctx out tags (artifact # artifacts) artifactBuilder s =
     (case artifactBuilder ctx out artifact (tags (ImageName artifact)) s of
        ((finalTag, Some err), s1) \<Rightarrow> (([], Some err), s1)
      | ((finalTag, None), s1) \<Rightarrow>
          (case InSequence ctx out tags artifacts artifactBuilder s1 of
             ((builds, err), s2) \<Rightarrow>
               ((\<lparr>build_ImageName = ImageName artifact, build_Tag = finalTag\<rparr> # builds, err), s2)))"

text \<open>The line \<^verbatim>\<open>Build\<close> writes when \<^verbatim>\<open>b.localCluster\<close> is set.\<close>

definition Build_banner :: "Writer \<Rightarrow> 'w session \<Rightarrow> 'w session" where
  "Build_banner out s =
     (if localCluster (builder s) then
        emit (Call_Fprintf out
          (''Found ['' @ kubeContext (builder s) @ ''] context, using local docker daemon.'' @ [CHR 0x0A])) s
      else s)"

text \<open>The deferred \<^verbatim>\<open>b.localDocker.Close ()\<close>: it runs when \<^verbatim>\<open>Build\<close> returns, and
  what it returns is dropped.\<close>

definition Build_deferred :: "'w collaborators \<Rightarrow> 'w session \<Rightarrow> 'w session" where
  "Build_deferred env s = snd (invoke Call_Close (Close env) s)"

definition Build ::
  "'w collaborators \<Rightarrow> Context \<Rightarrow> Writer \<Rightarrow> ImageTags \<Rightarrow> Artifact list \<Rightarrow> 'w session
    \<Rightarrow> (build_Artifact list \<times> error option) \<times> 'w session" where
  "Build env ctx out tags artifacts s =
     (case InSequence ctx out tags artifacts (buildArtifact env) (Build_banner out s) of
        (r, s1) \<Rightarrow> (r, Build_deferred env s1))"

subsection \<open>Vocabulary of the properties\<close>

text \<open>The five variants, in the order of the \<^verbatim>\<open>switch\<close> statements, and the variants an
  artifact has populated, in that order.\<close>

datatype variant = Docker | Bazel | Jib | Custom | Buildpack

definition populated :: "ArtifactType \<Rightarrow> variant list" where
  "populated t =
     (if DockerArtifact t \<noteq> None then [Docker] else []) @
     (if BazelArtifact t \<noteq> None then [Bazel] else []) @
     (if JibArtifact t \<noteq> None then [Jib] else []) @
     (if CustomArtifact t \<noteq> None then [Custom] else []) @
     (if BuildpackArtifact t \<noteq> None then [Buildpack] else [])"

text \<open>The build operation of each variant's backend, as \<^verbatim>\<open>runBuildForArtifact\<close> calls it.\<close>

fun backend ::
  "'w collaborators \<Rightarrow> variant \<Rightarrow> Context \<Rightarrow> Writer \<Rightarrow> Artifact \<Rightarrow> string \<Rightarrow> 'w session
    \<Rightarrow> (string \<times> error option) \<times> 'w session" where
  "backend env Docker ctx out a tag =
     invoke (Call_buildDocker ctx out a tag) (buildDocker env ctx out a tag)"
| "backend env Bazel ctx out a tag =
     invoke (Call_buildBazel ctx out a tag) (buildBazel env ctx out a tag)"
| "backend env Jib ctx out a tag = buildJib env ctx out a tag"
| "backend env Custom ctx out a tag =
     invoke (Call_buildCustom ctx out a tag) (buildCustom env ctx out a tag)"
| "backend env Buildpack ctx out a tag =
     invoke (Call_buildBuildpack ctx out a tag) (buildBuildpack env ctx out a tag)"

text \<open>The variant whose backend a recorded call belongs to, if it is a call to a backend's
  build operation.\<close>

fun call_variant :: "call \<Rightarrow> variant option" where
  "call_variant (Call_buildDocker ctx out a tag) = Some Docker"
| "call_variant (Call_buildBazel ctx out a tag) = Some Bazel"
| "call_variant (Call_DeterminePluginType w j) = Some Jib"
| "call_variant (Call_buildJibMaven ctx out w j tag) = Some Jib"
| "call_variant (Call_buildJibGradle ctx out w j tag) = Some Jib"
| "call_variant (Call_buildCustom ctx out a tag) = Some Custom"
| "call_variant (Call_buildBuildpack ctx out a tag) = Some Buildpack"
| "call_variant c = None"

subsection \<open>A concrete session\<close>

text \<open>
  Collaborators over a world that counts the builds and tags made: the docker and custom
  builds succeed, the bazel build fails, the buildpack build returns an empty identifier
  with no error; the plugin resolver knows three workspaces; the daemon knows two tags.
\<close>

definition example_env :: "nat collaborators" where
  "example_env = \<lparr>
     buildDocker = (\<lambda>ctx out a tag w. ((''sha256:abc'', None), Suc w)),
     buildBazel = (\<lambda>ctx out a tag w. (('''', Some (Foreign ''bazel: exit status 1'')), Suc w)),
     buildCustom = (\<lambda>ctx out a tag w. ((''sha256:c0de'', None), Suc w)),
     buildBuildpack = (\<lambda>ctx out a tag w. (('''', None), Suc w)),
     DeterminePluginType = (\<lambda>workspace j w.
       if workspace = ''/src/maven'' then ((JibMaven, None), w)
       else if workspace = ''/src/gradle'' then ((JibGradle, None), w)
       else if workspace = ''/src/ant'' then ((PluginTypeOther 2, None), w)
       else ((PluginTypeOther (- 1), Some (Foreign ''no build file'')), w)),
     buildJibMaven = (\<lambda>ctx out workspace j tag w. ((''sha256:mvn'', None), Suc w)),
     buildJibGradle = (\<lambda>ctx out workspace j tag w. ((''sha256:gradle'', None), Suc w)),
     ImageInspectWithRaw = (\<lambda>ctx tag w.
       if tag = ''gcr.io/p/app:v1'' then ((\<lparr>ID = ''sha256:xyz''\<rparr>, ''{}'', None), w)
       else if tag = ''gcr.io/p/empty:v1'' then ((\<lparr>ID = ''''\<rparr>, ''{}'', None), w)
       else ((\<lparr>ID = ''''\<rparr>, '''', Some (Foreign ''No such image'')), w)),
     TagWithImageID = (\<lambda>ctx tag imageID w. ((tag, None), Suc w)),
     Close = (\<lambda>w. (None, w)),
     docker_GetDependencies = (\<lambda>ctx workspace dockerfile args insecure w.
       (([''Dockerfile'', ''main.go''], None), w)),
     bazel_GetDependencies = (\<lambda>ctx workspace z w. (([], Some (Foreign ''bazel query failed'')), w)),
     jib_GetDependencies = (\<lambda>ctx workspace j w. (([''pom.xml''], None), w)),
     custom_GetDependencies = (\<lambda>ctx workspace c insecure w. (([''build.sh''], None), w)),
     buildpacks_GetDependencies = (\<lambda>ctx workspace p w. (([''.''], None), w)),
     docker_SyncMap = (\<lambda>ctx workspace dockerfile args insecure w.
       ((Some [''/app/main.go'' \<mapsto> [''main.go'']], None), w)),
     AbsolutePaths = (\<lambda>workspace paths w. map (\<lambda>path. workspace @ ''/'' @ path) paths) \<rparr>"

definition example_session :: "bool \<Rightarrow> nat session" where
  "example_session push = \<lparr>
     builder = \<lparr> localCluster = True, kubeContext = ''minikube'', pushImages = push,
                 insecureRegistries = Map.empty, builtImages = [] \<rparr>,
     world = 0, calls = [] \<rparr>"

definition no_variant :: ArtifactType where
  "no_variant = \<lparr> DockerArtifact = None, BazelArtifact = None, JibArtifact = None,
                   CustomArtifact = None, BuildpackArtifact = None \<rparr>"

definition example_dockerfile :: DockerArtifact where
  "example_dockerfile = \<lparr> DockerfilePath = ''Dockerfile'', BuildArgs = Map.empty \<rparr>"

definition docker_app :: "string \<Rightarrow> Artifact" where
  "docker_app workspace = \<lparr> ImageName = ''app'', Workspace = workspace,
     ArtifactType = no_variant\<lparr>DockerArtifact := Some example_dockerfile\<rparr> \<rparr>"

definition bazel_lib :: Artifact where
  "bazel_lib = \<lparr> ImageName = ''lib'', Workspace = ''/src/lib'',
     ArtifactType = no_variant\<lparr>BazelArtifact := Some (BazelConfig ''//lib:image.tar'')\<rparr> \<rparr>"

definition jib_svc :: "string \<Rightarrow> Artifact" where
  "jib_svc workspace = \<lparr> ImageName = ''svc'', Workspace = workspace,
     ArtifactType = no_variant\<lparr>JibArtifact := Some (JibConfig ''svc'')\<rparr> \<rparr>"

definition custom_tool :: Artifact where
  "custom_tool = \<lparr> ImageName = ''tool'', Workspace = ''/src/tool'',
     ArtifactType = no_variant\<lparr>CustomArtifact := Some (CustomConfig ''./build.sh'')\<rparr> \<rparr>"

definition buildpack_web :: Artifact where
  "buildpack_web = \<lparr> ImageName = ''web'', Workspace = ''/src/web'',
     ArtifactType = no_variant\<lparr>BuildpackArtifact := Some (BuildpackConfig ''heroku/buildpacks'')\<rparr> \<rparr>"

definition empty_artifact :: Artifact where
  "empty_artifact = \<lparr> ImageName = ''ghost'', Workspace = ''/src/ghost'', ArtifactType = no_variant \<rparr>"

definition docker_and_bazel :: Artifact where
  "docker_and_bazel = \<lparr> ImageName = ''both'', Workspace = ''/src/both'',
     ArtifactType = no_variant\<lparr>DockerArtifact := Some example_dockerfile,
                               BazelArtifact := Some (BazelConfig ''//both:image.tar'')\<rparr> \<rparr>"

definition example_tags :: ImageTags where
  "example_tags name = ''gcr.io/p/'' @ name @ '':v1''"

section \<open>Properties\<close>

lemmas example_defs =
  example_env_def example_session_def no_variant_def example_dockerfile_def docker_app_def
  bazel_lib_def jib_svc_def custom_tool_def buildpack_web_def empty_artifact_def
  docker_and_bazel_def example_tags_def

subsection \<open>Calls to collaborators\<close>

lemma invoke_builder: "builder (snd (invoke c f s)) = builder s"
  by (simp add: invoke_def split: prod.splits)

lemma invoke_calls: "calls (snd (invoke c f s)) = calls s @ [c]"
  by (simp add: invoke_def split: prod.splits)

lemma invoke_world: "world (snd (invoke c f s)) = snd (f (world s))"
  by (simp add: invoke_def split: prod.splits)

lemma invoke_fst: "fst (invoke c f s) = fst (f (world s))"
  by (simp add: invoke_def split: prod.splits)

lemma buildJib_builder: "builder (snd (buildJib env ctx out a tag s)) = builder s"
  by (auto simp: buildJib_def invoke_def split: prod.splits option.splits PluginType.splits)

lemma runBuildForArtifact_builder:
  "builder (snd (runBuildForArtifact env ctx out a tag s)) = builder s"
  by (simp add: runBuildForArtifact_def invoke_builder buildJib_builder)

lemma getImageIDForTag_builder: "builder (snd (getImageIDForTag env ctx tag s)) = builder s"
  by (auto simp: getImageIDForTag_def invoke_def split: prod.splits option.splits)

lemma buildJib_calls:
  "\<exists>cs. calls (snd (buildJib env ctx out a tag s))
          = calls s @ Call_DeterminePluginType (Workspace a) (JibArtifact (ArtifactType a)) # cs
      \<and> (\<forall>c\<in>set cs. call_variant c = Some Jib)"
  by (auto simp: buildJib_def invoke_def split: prod.splits option.splits PluginType.splits)

lemma backend_calls:
  "\<exists>c cs. calls (snd (backend env v ctx out a tag s)) = calls s @ c # cs
      \<and> (\<forall>c'\<in>set (c # cs). call_variant c' = Some v)"
proof (cases v)
  case Jib
  then show ?thesis using buildJib_calls [of env ctx out a tag s] by auto
qed (simp_all add: invoke_calls)

lemma runBuildForArtifact_first:
  "populated (ArtifactType a) = v # vs \<Longrightarrow>
     runBuildForArtifact env ctx out a tag s = backend env v ctx out a tag s"
  by (cases v) (auto simp: populated_def runBuildForArtifact_def split: if_splits)

lemma runBuildForArtifact_none:
  "populated (ArtifactType a) = [] \<Longrightarrow>
     runBuildForArtifact env ctx out a tag s =
       (('''', Some (Errorf ''undefined artifact type: %+v'' [ArgArtifactType (ArtifactType a)])), s)"
  by (auto simp: populated_def runBuildForArtifact_def split: if_splits)

subsection \<open>The Backend Dispatcher\<close>

text \<open>
  C1 (as amended). For every artifact with at least one backend variant populated,
  \<^verbatim>\<open>runBuildForArtifact\<close> invokes the backend of the first populated variant in the order
  of its \<^verbatim>\<open>switch\<close> (container image, Bazel, Jib, custom, buildpack), which for exactly one
  populated variant is that variant's backend: it returns what that backend returns, it makes
  at least one call, and every call it makes belongs to that backend. For every artifact with
  no variant populated it invokes no backend, leaves the session as it was and fails with the
  "undefined artifact type" error, which carries the artifact's \<^verbatim>\<open>ArtifactType\<close>.
\<close>

theorem runBuildForArtifact_dispatch:
  "(populated (ArtifactType a) = v # vs \<longrightarrow>
      runBuildForArtifact env ctx out a tag s = backend env v ctx out a tag s
      \<and> (\<exists>c cs. calls (snd (runBuildForArtifact env ctx out a tag s)) = calls s @ c # cs
            \<and> (\<forall>c'\<in>set (c # cs). call_variant c' = Some v)))
   \<and> (populated (ArtifactType a) = [] \<longrightarrow>
      runBuildForArtifact env ctx out a tag s =
        (('''', Some (Errorf ''undefined artifact type: %+v'' [ArgArtifactType (ArtifactType a)])), s))"
  using backend_calls [of env v ctx out a tag s]
  by (simp add: runBuildForArtifact_first runBuildForArtifact_none)

text \<open>The custom artifact of the example session reaches the custom backend and nothing
  else; the artifact with no variant reaches none.\<close>

theorem runBuildForArtifact_dispatch_witness:
  "populated (ArtifactType custom_tool) = [Custom]
   \<and> runBuildForArtifact example_env (Context 1) (Writer 1) custom_tool ''gcr.io/p/tool:v1'' (example_session False)
       = ((''sha256:c0de'', None),
          (example_session False)\<lparr>world := 1,
             calls := [Call_buildCustom (Context 1) (Writer 1) custom_tool ''gcr.io/p/tool:v1'']\<rparr>)
   \<and> populated (ArtifactType empty_artifact) = []
   \<and> runBuildForArtifact example_env (Context 1) (Writer 1) empty_artifact ''gcr.io/p/ghost:v1'' (example_session False)
       = (('''', Some (Errorf ''undefined artifact type: %+v'' [ArgArtifactType no_variant])),
          example_session False)"
  using runBuildForArtifact_dispatch [of custom_tool Custom "[]" example_env "Context 1" "Writer 1"
      "''gcr.io/p/tool:v1''" "example_session False"]
    runBuildForArtifact_dispatch [of empty_artifact Custom "[]" example_env "Context 1" "Writer 1"
      "''gcr.io/p/ghost:v1''" "example_session False"]
  by (simp add: populated_def invoke_def example_defs)

text \<open>An artifact with two variants populated, container image and Bazel: the container-image
  backend is invoked and the build succeeds, where C1 as stated has no backend invoked and
  an error.\<close>

theorem runBuildForArtifact_two_variants_counterexample:
  "populated (ArtifactType docker_and_bazel) = [Docker, Bazel]
   \<and> runBuildForArtifact example_env (Context 1) (Writer 1) docker_and_bazel ''gcr.io/p/both:v1'' (example_session False)
       = ((''sha256:abc'', None),
          (example_session False)\<lparr>world := 1,
             calls := [Call_buildDocker (Context 1) (Writer 1) docker_and_bazel ''gcr.io/p/both:v1'']\<rparr>)"
  by (simp add: populated_def runBuildForArtifact_def invoke_def example_defs)

subsection \<open>The Tag Resolver\<close>

text \<open>
  C9. For every artifact and tag, if the backend build fails with \<open>err\<close>, then
  \<^verbatim>\<open>buildArtifact\<close> returns the empty string as reference together with \<open>err\<close> wrapped
  as "build artifact", in the session the backend left, and the Built-Image Registry is
  exactly as it was before the call.
\<close>

theorem buildArtifact_backend_failure:
  assumes "runBuildForArtifact env ctx out artifact tag s = ((d, Some err), s1)"
  shows "buildArtifact env ctx out artifact tag s = (('''', Some (Wrap err ''build artifact'')), s1)
       \<and> builtImages (builder (snd (buildArtifact env ctx out artifact tag s))) = builtImages (builder s)"
proof -
  have "builder s1 = builder s"
    using runBuildForArtifact_builder [of env ctx out artifact tag s] assms by simp
  with assms show ?thesis by (simp add: buildArtifact_def)
qed

theorem buildArtifact_backend_failure_witness:
  "runBuildForArtifact example_env (Context 1) (Writer 1) bazel_lib ''gcr.io/p/lib:v1'' (example_session False)
     = (('''', Some (Foreign ''bazel: exit status 1'')),
        (example_session False)\<lparr>world := 1,
           calls := [Call_buildBazel (Context 1) (Writer 1) bazel_lib ''gcr.io/p/lib:v1'']\<rparr>)
   \<and> fst (buildArtifact example_env (Context 1) (Writer 1) bazel_lib ''gcr.io/p/lib:v1'' (example_session False))
     = ('''', Some (Wrap (Foreign ''bazel: exit status 1'') ''build artifact''))
   \<and> builtImages (builder (snd (buildArtifact example_env (Context 1) (Writer 1) bazel_lib
        ''gcr.io/p/lib:v1'' (example_session False)))) = []"
proof -
  have run: "runBuildForArtifact example_env (Context 1) (Writer 1) bazel_lib ''gcr.io/p/lib:v1'' (example_session False)
     = (('''', Some (Foreign ''bazel: exit status 1'')),
        (example_session False)\<lparr>world := 1,
           calls := [Call_buildBazel (Context 1) (Writer 1) bazel_lib ''gcr.io/p/lib:v1'']\<rparr>)"
    by (simp add: runBuildForArtifact_def invoke_def example_defs)
  show ?thesis
    using run buildArtifact_backend_failure [OF run] by (simp add: example_session_def)
qed

text \<open>
  C3. For every artifact and tag \<open>T\<close>, if push-mode is true and the backend build succeeds
  with raw result \<open>D\<close>, then \<^verbatim>\<open>buildArtifact\<close> succeeds and its final reference is
  \<open>T @ ''@'' @ D\<close>.
\<close>

theorem buildArtifact_push_reference:
  assumes "pushImages (builder s)"
    and "runBuildForArtifact env ctx out artifact tag s = ((D, None), s1)"
  shows "fst (buildArtifact env ctx out artifact tag s) = (tag @ ''@'' @ D, None)"
proof -
  have "builder s1 = builder s"
    using runBuildForArtifact_builder [of env ctx out artifact tag s] assms by simp
  with assms show ?thesis by (simp add: buildArtifact_def)
qed

theorem buildArtifact_push_reference_witness:
  "pushImages (builder (example_session True))
   \<and> runBuildForArtifact example_env (Context 1) (Writer 1) custom_tool ''gcr.io/p/tool:v1'' (example_session True)
     = ((''sha256:c0de'', None),
        (example_session True)\<lparr>world := 1,
           calls := [Call_buildCustom (Context 1) (Writer 1) custom_tool ''gcr.io/p/tool:v1'']\<rparr>)
   \<and> fst (buildArtifact example_env (Context 1) (Writer 1) custom_tool ''gcr.io/p/tool:v1'' (example_session True))
     = (''gcr.io/p/tool:v1@sha256:c0de'', None)"
proof -
  have push: "pushImages (builder (example_session True))"
    by (simp add: example_session_def)
  have run: "runBuildForArtifact example_env (Context 1) (Writer 1) custom_tool ''gcr.io/p/tool:v1'' (example_session True)
     = ((''sha256:c0de'', None),
        (example_session True)\<lparr>world := 1,
           calls := [Call_buildCustom (Context 1) (Writer 1) custom_tool ''gcr.io/p/tool:v1'']\<rparr>)"
    by (simp add: runBuildForArtifact_def invoke_def example_defs)
  show ?thesis
    using push run buildArtifact_push_reference [OF push run] by simp
qed

text \<open>
  C4. For every artifact (of any variant) and tag \<open>T\<close>, if push-mode is false and the
  backend build succeeds with local image identifier \<open>I\<close>, then exactly one copy of \<open>I\<close>
  is appended to the Built-Image Registry, and what \<^verbatim>\<open>buildArtifact\<close> returns is what the
  build client's \<^verbatim>\<open>TagWithImageID\<close> returns for \<open>T\<close> and \<open>I\<close>, called once, after
  the backend.
\<close>

theorem buildArtifact_local_registry:
  assumes "\<not> pushImages (builder s)"
    and "runBuildForArtifact env ctx out artifact tag s = ((I, None), s1)"
  shows "builtImages (builder (snd (buildArtifact env ctx out artifact tag s)))
           = builtImages (builder s) @ [I]
       \<and> fst (buildArtifact env ctx out artifact tag s) = fst (TagWithImageID env ctx tag I (world s1))
       \<and> calls (snd (buildArtifact env ctx out artifact tag s)) = calls s1 @ [Call_TagWithImageID ctx tag I]"
proof -
  have "builder s1 = builder s"
    using runBuildForArtifact_builder [of env ctx out artifact tag s] assms by simp
  with assms show ?thesis
    by (simp add: buildArtifact_def invoke_builder invoke_fst invoke_calls append_builtImages_def)
qed

theorem buildArtifact_local_registry_witness:
  "\<not> pushImages (builder (example_session False))
   \<and> runBuildForArtifact example_env (Context 1) (Writer 1) (docker_app ''/src/app'') ''gcr.io/p/app:v1''
       (example_session False)
     = ((''sha256:abc'', None),
        (example_session False)\<lparr>world := 1,
           calls := [Call_buildDocker (Context 1) (Writer 1) (docker_app ''/src/app'') ''gcr.io/p/app:v1'']\<rparr>)
   \<and> builtImages (builder (snd (buildArtifact example_env (Context 1) (Writer 1) (docker_app ''/src/app'')
        ''gcr.io/p/app:v1'' (example_session False)))) = [''sha256:abc'']
   \<and> fst (buildArtifact example_env (Context 1) (Writer 1) (docker_app ''/src/app'') ''gcr.io/p/app:v1''
        (example_session False)) = (''gcr.io/p/app:v1'', None)"
proof -
  have local: "\<not> pushImages (builder (example_session False))"
    by (simp add: example_session_def)
  have run: "runBuildForArtifact example_env (Context 1) (Writer 1) (docker_app ''/src/app'') ''gcr.io/p/app:v1''
       (example_session False)
     = ((''sha256:abc'', None),
        (example_session False)\<lparr>world := 1,
           calls := [Call_buildDocker (Context 1) (Writer 1) (docker_app ''/src/app'') ''gcr.io/p/app:v1'']\<rparr>)"
    by (simp add: runBuildForArtifact_def invoke_def example_defs)
  show ?thesis
    using local run buildArtifact_local_registry [OF local run]
    by (simp add: example_session_def example_env_def)
qed

text \<open>
  C5. For every container-image artifact built with push-mode true whose backend build
  succeeds with \<open>D\<close>, if the inspection of the tag fails, then \<^verbatim>\<open>buildArtifact\<close> still
  succeeds with the reference \<open>tag @ ''@'' @ D\<close>, the Built-Image Registry is as it was,
  and a warning is logged after the inspection.
\<close>

theorem buildArtifact_inspection_failure:
  assumes "DockerArtifact (ArtifactType artifact) \<noteq> None"
    and "pushImages (builder s)"
    and "runBuildForArtifact env ctx out artifact tag s = ((D, None), s1)"
    and "fst (ImageInspectWithRaw env ctx tag (world s1)) = (insp, raw, Some e)"
  shows "fst (buildArtifact env ctx out artifact tag s) = (tag @ ''@'' @ D, None)
       \<and> builtImages (builder (snd (buildArtifact env ctx out artifact tag s))) = builtImages (builder s)
       \<and> calls (snd (buildArtifact env ctx out artifact tag s))
           = calls s1 @ [Call_ImageInspectWithRaw ctx tag,
               Call_Warnf ''unable to inspect image: built images may not be cleaned up correctly by skaffold'']"
proof -
  have b: "builder s1 = builder s"
    using runBuildForArtifact_builder [of env ctx out artifact tag s] assms(3) by simp
  obtain w where insp: "ImageInspectWithRaw env ctx tag (world s1) = ((insp, raw, Some e), w)"
    using assms(4) by (cases "ImageInspectWithRaw env ctx tag (world s1)") simp
  have "getImageIDForTag env ctx tag s1
          = (('''', Some (Wrap e ''inspecting image'')),
             s1\<lparr>world := w, calls := calls s1 @ [Call_ImageInspectWithRaw ctx tag]\<rparr>)"
    by (simp add: getImageIDForTag_def invoke_def insp)
  with assms(1-3) b show ?thesis
    by (simp add: buildArtifact_def emit_def)
qed

theorem buildArtifact_inspection_failure_witness:
  "DockerArtifact (ArtifactType (docker_app ''/src/app'')) \<noteq> None
   \<and> pushImages (builder (example_session True))
   \<and> fst (ImageInspectWithRaw example_env (Context 1) ''gcr.io/p/gone:v1'' 1)
       = (\<lparr>ID = ''''\<rparr>, '''', Some (Foreign ''No such image''))
   \<and> fst (buildArtifact example_env (Context 1) (Writer 1) (docker_app ''/src/app'') ''gcr.io/p/gone:v1''
        (example_session True)) = (''gcr.io/p/gone:v1@sha256:abc'', None)
   \<and> builtImages (builder (snd (buildArtifact example_env (Context 1) (Writer 1) (docker_app ''/src/app'')
        ''gcr.io/p/gone:v1'' (example_session True)))) = []"
proof -
  have docker: "DockerArtifact (ArtifactType (docker_app ''/src/app'')) \<noteq> None"
    by (simp add: example_defs)
  have push: "pushImages (builder (example_session True))"
    by (simp add: example_session_def)
  have run: "runBuildForArtifact example_env (Context 1) (Writer 1) (docker_app ''/src/app'') ''gcr.io/p/gone:v1''
       (example_session True)
     = ((''sha256:abc'', None),
        (example_session True)\<lparr>world := 1,
           calls := [Call_buildDocker (Context 1) (Writer 1) (docker_app ''/src/app'') ''gcr.io/p/gone:v1'']\<rparr>)"
    by (simp add: runBuildForArtifact_def invoke_def example_defs)
  have insp: "fst (ImageInspectWithRaw example_env (Context 1) ''gcr.io/p/gone:v1''
        (world ((example_session True)\<lparr>world := 1,
           calls := [Call_buildDocker (Context 1) (Writer 1) (docker_app ''/src/app'') ''gcr.io/p/gone:v1'']\<rparr>)))
       = (\<lparr>ID = ''''\<rparr>, '''', Some (Foreign ''No such image''))"
    by (simp add: example_env_def)
  show ?thesis
    using docker push insp buildArtifact_inspection_failure [OF docker push run insp]
    by (simp add: example_session_def)
qed

subsection \<open>The Built-Image Registry\<close>

text \<open>What \<^verbatim>\<open>buildArtifact\<close> appends to \<^verbatim>\<open>b.builtImages\<close>, in every case.\<close>

lemma getImageIDForTag_result:
  "fst (ImageInspectWithRaw env ctx tag (world s)) = (insp, raw, err) \<Longrightarrow>
     fst (fst (getImageIDForTag env ctx tag s)) = (if err = None then ID insp else '''')"
  by (cases "ImageInspectWithRaw env ctx tag (world s)")
     (auto simp: getImageIDForTag_def invoke_def split: option.splits)

lemma buildArtifact_builtImages:
  assumes r: "runBuildForArtifact env ctx out artifact tag s = ((d, e), s1)"
  shows "builtImages (builder (snd (buildArtifact env ctx out artifact tag s)))
           = builtImages (builder s) @
               (case e of
                  Some err \<Rightarrow> []
                | None \<Rightarrow>
                    if pushImages (builder s) then
                      (if DockerArtifact (ArtifactType artifact) \<noteq> None
                          \<and> fst (fst (getImageIDForTag env ctx tag s1)) \<noteq> ''''
                       then [fst (fst (getImageIDForTag env ctx tag s1))] else [])
                    else [d])"
proof -
  have b: "builder s1 = builder s"
    using runBuildForArtifact_builder [of env ctx out artifact tag s] r by simp
  obtain i e' s2 where g: "getImageIDForTag env ctx tag s1 = ((i, e'), s2)"
    by (metis surj_pair)
  have "builder s2 = builder s"
    using getImageIDForTag_builder [of env ctx tag s1] b g by simp
  with r b g show ?thesis
    by (cases e)
       (simp_all add: buildArtifact_def emit_def append_builtImages_def invoke_builder)
qed

lemma DependenciesForArtifact_return_builder:
  "builder (snd (DependenciesForArtifact_return env a r)) = builder (snd r)"
  by (auto simp: DependenciesForArtifact_return_def split: prod.splits option.splits)

lemma DependenciesForArtifact_builder:
  "builder (snd (DependenciesForArtifact env ctx a s)) = builder s"
  by (simp add: DependenciesForArtifact_def DependenciesForArtifact_return_builder invoke_builder
      split: option.splits)

lemma SyncMap_builder: "builder (snd (SyncMap env ctx a s)) = builder s"
  by (simp add: SyncMap_def invoke_builder split: option.splits)

text \<open>
  C10 (as amended). In push mode with a container-image artifact, the identifier recovered
  by the inspection is appended to the Built-Image Registry only if the inspection succeeds
  and the identifier is not the empty string: when the inspection succeeds and reports an
  empty identifier, nothing is appended. So \<^verbatim>\<open>buildArtifact\<close> in push mode keeps the
  empty string out of the registry. Without push the backend's identifier is appended as it
  is, and the empty string stays out when the backend fails or returns a non-empty
  identifier. \<^verbatim>\<open>DependenciesForArtifact\<close> and \<^verbatim>\<open>SyncMap\<close> leave the builder as it is.
\<close>

theorem builtImages_without_empty_string:
  assumes "'''' \<notin> set (builtImages (builder s))"
  shows "(pushImages (builder s)
            \<or> snd (fst (runBuildForArtifact env ctx out artifact tag s)) \<noteq> None
            \<or> fst (fst (runBuildForArtifact env ctx out artifact tag s)) \<noteq> '''' \<longrightarrow>
          '''' \<notin> set (builtImages (builder (snd (buildArtifact env ctx out artifact tag s)))))
       \<and> (pushImages (builder s) \<and> DockerArtifact (ArtifactType artifact) \<noteq> None
            \<and> runBuildForArtifact env ctx out artifact tag s = ((D, None), s1)
            \<and> fst (ImageInspectWithRaw env ctx tag (world s1)) = (insp, raw, err) \<longrightarrow>
          builtImages (builder (snd (buildArtifact env ctx out artifact tag s)))
            = builtImages (builder s) @ (if err = None \<and> ID insp \<noteq> '''' then [ID insp] else []))
       \<and> builder (snd (DependenciesForArtifact env ctx artifact s)) = builder s
       \<and> builder (snd (SyncMap env ctx artifact s)) = builder s"
proof -
  obtain d e s' where r: "runBuildForArtifact env ctx out artifact tag s = ((d, e), s')"
    by (metis surj_pair)
  have inv: "pushImages (builder s) \<or> e \<noteq> None \<or> d \<noteq> '''' \<Longrightarrow>
      '''' \<notin> set (builtImages (builder (snd (buildArtifact env ctx out artifact tag s))))"
    using assms by (auto simp: buildArtifact_builtImages [OF r] split: option.splits)
  have push: "builtImages (builder (snd (buildArtifact env ctx out artifact tag s)))
            = builtImages (builder s) @ (if err = None \<and> ID insp \<noteq> '''' then [ID insp] else [])"
    if "pushImages (builder s)" "DockerArtifact (ArtifactType artifact) \<noteq> None"
      "runBuildForArtifact env ctx out artifact tag s = ((D, None), s1)"
      "fst (ImageInspectWithRaw env ctx tag (world s1)) = (insp, raw, err)"
    using that by (simp add: buildArtifact_builtImages [OF that(3)] getImageIDForTag_result [OF that(4)])
  from inv push r show ?thesis
    by (simp add: DependenciesForArtifact_builder SyncMap_builder)
qed

text \<open>In push mode, for a tag the daemon reports an empty identifier for, with no error,
  the registry stays empty; for a tag it reports an identifier for, that identifier is
  appended.\<close>

theorem builtImages_without_empty_string_witness:
  "'''' \<notin> set (builtImages (builder (example_session True)))
   \<and> pushImages (builder (example_session True))
   \<and> DockerArtifact (ArtifactType (docker_app ''/src/app'')) \<noteq> None
   \<and> fst (ImageInspectWithRaw example_env (Context 1) ''gcr.io/p/empty:v1'' 1) = (\<lparr>ID = ''''\<rparr>, ''{}'', None)
   \<and> builtImages (builder (snd (buildArtifact example_env (Context 1) (Writer 1) (docker_app ''/src/app'')
        ''gcr.io/p/empty:v1'' (example_session True)))) = []
   \<and> fst (ImageInspectWithRaw example_env (Context 1) ''gcr.io/p/app:v1'' 1)
        = (\<lparr>ID = ''sha256:xyz''\<rparr>, ''{}'', None)
   \<and> builtImages (builder (snd (buildArtifact example_env (Context 1) (Writer 1) (docker_app ''/src/app'')
        ''gcr.io/p/app:v1'' (example_session True)))) = [''sha256:xyz'']
   \<and> '''' \<notin> set (builtImages (builder (snd (buildArtifact example_env (Context 1) (Writer 1)
        (docker_app ''/src/app'') ''gcr.io/p/empty:v1'' (example_session True)))))"
proof -
  have inv: "'''' \<notin> set (builtImages (builder (example_session True)))"
    by (simp add: example_session_def)
  have run: "runBuildForArtifact example_env (Context 1) (Writer 1) (docker_app ''/src/app'') tag
       (example_session True)
     = ((''sha256:abc'', None),
        (example_session True)\<lparr>world := 1,
           calls := [Call_buildDocker (Context 1) (Writer 1) (docker_app ''/src/app'') tag]\<rparr>)" for tag
    by (simp add: runBuildForArtifact_def invoke_def example_defs)
  have empty: "fst (ImageInspectWithRaw example_env (Context 1) ''gcr.io/p/empty:v1'' 1)
      = (\<lparr>ID = ''''\<rparr>, ''{}'', None)"
    by (simp add: example_env_def)
  have xyz: "fst (ImageInspectWithRaw example_env (Context 1) ''gcr.io/p/app:v1'' 1)
      = (\<lparr>ID = ''sha256:xyz''\<rparr>, ''{}'', None)"
    by (simp add: example_env_def)
  have docker: "DockerArtifact (ArtifactType (docker_app ''/src/app'')) \<noteq> None"
    by (simp add: example_defs)
  have push: "pushImages (builder (example_session True))"
    by (simp add: example_session_def)
  show ?thesis
    using inv run empty xyz docker push
      builtImages_without_empty_string [OF inv, where env = example_env and ctx = "Context 1"
        and out = "Writer 1" and artifact = "docker_app ''/src/app''" and tag = "''gcr.io/p/empty:v1''"
        and D = "''sha256:abc''" and insp = "\<lparr>ID = ''''\<rparr>" and raw = "''{}''" and err = None
        and ?s1.0 = "(example_session True)\<lparr>world := 1,
           calls := [Call_buildDocker (Context 1) (Writer 1) (docker_app ''/src/app'') ''gcr.io/p/empty:v1'']\<rparr>"]
      builtImages_without_empty_string [OF inv, where env = example_env and ctx = "Context 1"
        and out = "Writer 1" and artifact = "docker_app ''/src/app''" and tag = "''gcr.io/p/app:v1''"
        and D = "''sha256:abc''" and insp = "\<lparr>ID = ''sha256:xyz''\<rparr>" and raw = "''{}''" and err = None
        and ?s1.0 = "(example_session True)\<lparr>world := 1,
           calls := [Call_buildDocker (Context 1) (Writer 1) (docker_app ''/src/app'') ''gcr.io/p/app:v1'']\<rparr>"]
    by (simp add: example_session_def)
qed

text \<open>Without push, the buildpack backend of the example session returns an empty identifier
  and no error: the empty string enters the registry, where C10 as stated has every
  operation keep it out.\<close>

theorem builtImages_empty_string_counterexample:
  "builtImages (builder (example_session False)) = []
   \<and> buildArtifact example_env (Context 1) (Writer 1) buildpack_web ''gcr.io/p/web:v1'' (example_session False)
     = ((''gcr.io/p/web:v1'', None),
        (example_session False)\<lparr>
           builder := (builder (example_session False))\<lparr>builtImages := ['''']\<rparr>,
           world := 2,
           calls := [Call_buildBuildpack (Context 1) (Writer 1) buildpack_web ''gcr.io/p/web:v1'',
                     Call_TagWithImageID (Context 1) ''gcr.io/p/web:v1'' '''']\<rparr>)"
  by (simp add: buildArtifact_def runBuildForArtifact_def invoke_def append_builtImages_def example_defs)

subsection \<open>The Sync-Map Provider\<close>

text \<open>
  C6. For every artifact whose container-image configuration is not populated,
  \<^verbatim>\<open>SyncMap\<close> returns no mapping and the error \<^verbatim>\<open>ErrSyncMapNotSupported\<close>, no other, and
  calls nothing. For every artifact whose container-image configuration is populated it
  returns what \<^verbatim>\<open>docker.SyncMap\<close> returns, mapping or error, for the artifact's workspace,
  Dockerfile path and build arguments and the builder's insecure registries.
\<close>

theorem SyncMap_docker_only:
  "(DockerArtifact (ArtifactType a) = None \<longrightarrow>
      SyncMap env ctx a s = ((None, Some ErrSyncMapNotSupported), s))
   \<and> (DockerArtifact (ArtifactType a) = Some d \<longrightarrow>
      fst (SyncMap env ctx a s)
        = fst (docker_SyncMap env ctx (Workspace a) (DockerfilePath d) (BuildArgs d)
                 (insecureRegistries (builder s)) (world s))
      \<and> world (snd (SyncMap env ctx a s))
        = snd (docker_SyncMap env ctx (Workspace a) (DockerfilePath d) (BuildArgs d)
                 (insecureRegistries (builder s)) (world s))
      \<and> calls (snd (SyncMap env ctx a s))
        = calls s @ [Call_docker_SyncMap ctx (Workspace a) (DockerfilePath d)])"
  by (simp add: SyncMap_def invoke_fst invoke_world invoke_calls)

theorem SyncMap_docker_only_witness:
  "DockerArtifact (ArtifactType bazel_lib) = None
   \<and> SyncMap example_env (Context 1) bazel_lib (example_session False)
       = ((None, Some ErrSyncMapNotSupported), example_session False)
   \<and> DockerArtifact (ArtifactType (docker_app ''/src/app'')) = Some example_dockerfile
   \<and> fst (SyncMap example_env (Context 1) (docker_app ''/src/app'') (example_session False))
       = (Some [''/app/main.go'' \<mapsto> [''main.go'']], None)"
  using SyncMap_docker_only [where a = bazel_lib and env = example_env and ctx = "Context 1"
      and s = "example_session False"]
    SyncMap_docker_only [where a = "docker_app ''/src/app''" and d = example_dockerfile
      and env = example_env and ctx = "Context 1" and s = "example_session False"]
  by (simp add: example_defs)

subsection \<open>The build-tool-integrated backend\<close>

text \<open>
  C8. \<^verbatim>\<open>buildJib\<close> first asks the plugin resolver for the flavor of the artifact's
  workspace. For Maven it then makes the Maven build call, for Gradle the Gradle build call,
  each with the same context, output sink, workspace, configuration and tag, and returns
  what the call returns. When the resolver answers with any other flavor, no build call is
  made and the error is "Unable to determine Jib builder type" with the workspace as its
  argument; when the resolver itself fails, no build call is made and its error is returned
  as it is.
\<close>

theorem buildJib_flavors:
  "(fst (DeterminePluginType env (Workspace a) (JibArtifact (ArtifactType a)) (world s)) = (JibMaven, None) \<longrightarrow>
      buildJib env ctx out a tag s
        = invoke (Call_buildJibMaven ctx out (Workspace a) (JibArtifact (ArtifactType a)) tag)
            (buildJibMaven env ctx out (Workspace a) (JibArtifact (ArtifactType a)) tag)
            (snd (invoke (Call_DeterminePluginType (Workspace a) (JibArtifact (ArtifactType a)))
                    (DeterminePluginType env (Workspace a) (JibArtifact (ArtifactType a))) s))
      \<and> calls (snd (buildJib env ctx out a tag s))
        = calls s @ [Call_DeterminePluginType (Workspace a) (JibArtifact (ArtifactType a)),
                     Call_buildJibMaven ctx out (Workspace a) (JibArtifact (ArtifactType a)) tag])
   \<and> (fst (DeterminePluginType env (Workspace a) (JibArtifact (ArtifactType a)) (world s)) = (JibGradle, None) \<longrightarrow>
      buildJib env ctx out a tag s
        = invoke (Call_buildJibGradle ctx out (Workspace a) (JibArtifact (ArtifactType a)) tag)
            (buildJibGradle env ctx out (Workspace a) (JibArtifact (ArtifactType a)) tag)
            (snd (invoke (Call_DeterminePluginType (Workspace a) (JibArtifact (ArtifactType a)))
                    (DeterminePluginType env (Workspace a) (JibArtifact (ArtifactType a))) s))
      \<and> calls (snd (buildJib env ctx out a tag s))
        = calls s @ [Call_DeterminePluginType (Workspace a) (JibArtifact (ArtifactType a)),
                     Call_buildJibGradle ctx out (Workspace a) (JibArtifact (ArtifactType a)) tag])
   \<and> (fst (DeterminePluginType env (Workspace a) (JibArtifact (ArtifactType a)) (world s))
        = (PluginTypeOther n, None) \<longrightarrow>
      fst (buildJib env ctx out a tag s)
        = ('''', Some (Errorf ''Unable to determine Jib builder type for %s'' [ArgString (Workspace a)]))
      \<and> calls (snd (buildJib env ctx out a tag s))
        = calls s @ [Call_DeterminePluginType (Workspace a) (JibArtifact (ArtifactType a))])
   \<and> (fst (DeterminePluginType env (Workspace a) (JibArtifact (ArtifactType a)) (world s)) = (t, Some err) \<longrightarrow>
      fst (buildJib env ctx out a tag s) = ('''', Some err)
      \<and> calls (snd (buildJib env ctx out a tag s))
        = calls s @ [Call_DeterminePluginType (Workspace a) (JibArtifact (ArtifactType a))])"
  by (cases "DeterminePluginType env (Workspace a) (JibArtifact (ArtifactType a)) (world s)")
     (auto simp: buildJib_def invoke_def split: prod.splits)

theorem buildJib_flavors_witness:
  "buildJib example_env (Context 1) (Writer 1) (jib_svc ''/src/maven'') ''gcr.io/p/svc:v1'' (example_session False)
     = ((''sha256:mvn'', None),
        (example_session False)\<lparr>world := 1,
           calls := [Call_DeterminePluginType ''/src/maven'' (Some (JibConfig ''svc'')),
                     Call_buildJibMaven (Context 1) (Writer 1) ''/src/maven'' (Some (JibConfig ''svc''))
                       ''gcr.io/p/svc:v1'']\<rparr>)
   \<and> buildJib example_env (Context 1) (Writer 1) (jib_svc ''/src/gradle'') ''gcr.io/p/svc:v1'' (example_session False)
     = ((''sha256:gradle'', None),
        (example_session False)\<lparr>world := 1,
           calls := [Call_DeterminePluginType ''/src/gradle'' (Some (JibConfig ''svc'')),
                     Call_buildJibGradle (Context 1) (Writer 1) ''/src/gradle'' (Some (JibConfig ''svc''))
                       ''gcr.io/p/svc:v1'']\<rparr>)
   \<and> buildJib example_env (Context 1) (Writer 1) (jib_svc ''/src/ant'') ''gcr.io/p/svc:v1'' (example_session False)
     = (('''', Some (Errorf ''Unable to determine Jib builder type for %s'' [ArgString ''/src/ant''])),
        (example_session False)\<lparr>world := 0,
           calls := [Call_DeterminePluginType ''/src/ant'' (Some (JibConfig ''svc''))]\<rparr>)
   \<and> buildJib example_env (Context 1) (Writer 1) (jib_svc ''/src/none'') ''gcr.io/p/svc:v1'' (example_session False)
     = (('''', Some (Foreign ''no build file'')),
        (example_session False)\<lparr>world := 0,
           calls := [Call_DeterminePluginType ''/src/none'' (Some (JibConfig ''svc''))]\<rparr>)"
  using buildJib_flavors [where env = example_env and a = "jib_svc ''/src/maven''" and s = "example_session False"
      and ctx = "Context 1" and out = "Writer 1" and tag = "''gcr.io/p/svc:v1''" and n = 2
      and t = "PluginTypeOther (- 1)" and err = "Foreign ''no build file''"]
    buildJib_flavors [where env = example_env and a = "jib_svc ''/src/gradle''" and s = "example_session False"
      and ctx = "Context 1" and out = "Writer 1" and tag = "''gcr.io/p/svc:v1''" and n = 2
      and t = "PluginTypeOther (- 1)" and err = "Foreign ''no build file''"]
    buildJib_flavors [where env = example_env and a = "jib_svc ''/src/ant''" and s = "example_session False"
      and ctx = "Context 1" and out = "Writer 1" and tag = "''gcr.io/p/svc:v1''" and n = 2
      and t = "PluginTypeOther (- 1)" and err = "Foreign ''no build file''"]
    buildJib_flavors [where env = example_env and a = "jib_svc ''/src/none''" and s = "example_session False"
      and ctx = "Context 1" and out = "Writer 1" and tag = "''gcr.io/p/svc:v1''" and n = 2
      and t = "PluginTypeOther (- 1)" and err = "Foreign ''no build file''"]
  by (simp add: buildJib_def invoke_def example_defs)

subsection \<open>The Dependency Aggregator\<close>

text \<open>Whenever \<^verbatim>\<open>DependenciesForArtifact\<close> succeeds, what it returns is what
  \<^verbatim>\<open>util.AbsolutePaths\<close> returns for the artifact's own workspace and some list of
  paths.\<close>

lemma DependenciesForArtifact_return_paths:
  "DependenciesForArtifact_return env a r = ((paths, None), s') \<Longrightarrow>
     \<exists>ps. paths = AbsolutePaths env (Workspace a) ps (world s')"
  by (auto simp: DependenciesForArtifact_return_def split: prod.splits option.splits)

lemma DependenciesForArtifact_converted:
  "DependenciesForArtifact env ctx a s = ((paths, None), s') \<Longrightarrow>
     \<exists>ps. paths = AbsolutePaths env (Workspace a) ps (world s')"
  by (auto simp: DependenciesForArtifact_def split: option.splits if_splits
           dest: DependenciesForArtifact_return_paths)

subsection \<open>The Build Coordinator\<close>

lemma InSequence_append:
  "InSequence ctx out tags pre f s = ((res, None), s1) \<Longrightarrow>
     InSequence ctx out tags (pre @ rest) f s
       = (case InSequence ctx out tags rest f s1 of ((rs, e), s2) \<Rightarrow> ((res @ rs, e), s2))"
proof (induction pre arbitrary: s res)
  case Nil
  then show ?case by (simp split: prod.splits)
next
  case (Cons a pre)
  then show ?case
    by (auto split: prod.splits option.splits)
qed

lemma InSequence_names:
  "InSequence ctx out tags artifacts f s = ((res, None), s1) \<Longrightarrow>
     map build_ImageName res = map ImageName artifacts"
proof (induction artifacts arbitrary: s res)
  case Nil
  then show ?case by simp
next
  case (Cons a artifacts)
  then show ?case
    by (auto split: prod.splits option.splits)
qed

lemma buildArtifact_failure:
  "runBuildForArtifact env ctx out artifact tag s = ((d, Some err), s1) \<Longrightarrow>
     buildArtifact env ctx out artifact tag s = (('''', Some (Wrap err ''build artifact'')), s1)"
  by (simp add: buildArtifact_def)

text \<open>
  C2. For every ordered list of artifacts \<open>pre @ a # post\<close> where the artifacts of
  \<open>pre\<close> are built with the results \<open>res\<close> and the backend build of \<open>a\<close> then fails
  with \<open>err\<close>, \<^verbatim>\<open>Build\<close> returns \<open>res\<close>, the results for the artifacts of \<open>pre\<close>
  in input order, together with \<open>err\<close> wrapped as "build artifact". After the failing
  backend call nothing is called but the deferred \<^verbatim>\<open>Close\<close>: no backend is invoked for
  the artifacts of \<open>post\<close>, and the builder is as the failing call left it.
\<close>

theorem Build_first_failure:
  assumes pre: "InSequence ctx out tags pre (buildArtifact env) (Build_banner out s) = ((res, None), s1)"
    and fail: "runBuildForArtifact env ctx out a (tags (ImageName a)) s1 = ((d, Some err), s2)"
  shows "Build env ctx out tags (pre @ a # post) s
           = ((res, Some (Wrap err ''build artifact'')), Build_deferred env s2)
       \<and> map build_ImageName res = map ImageName pre
       \<and> calls (Build_deferred env s2) = calls s2 @ [Call_Close]
       \<and> builder (Build_deferred env s2) = builder s2"
proof -
  have "InSequence ctx out tags (a # post) (buildArtifact env) s1
          = (([], Some (Wrap err ''build artifact'')), s2)"
    by (simp add: buildArtifact_failure [OF fail])
  then have "InSequence ctx out tags (pre @ a # post) (buildArtifact env) (Build_banner out s)
          = ((res, Some (Wrap err ''build artifact'')), s2)"
    by (simp add: InSequence_append [OF pre])
  then show ?thesis
    by (simp add: Build_def Build_deferred_def invoke_calls invoke_builder InSequence_names [OF pre])
qed

text \<open>Five artifacts, the third of which fails: two results, the wrapped error, and no call
  for the fourth and the fifth.\<close>

theorem Build_first_failure_witness:
  "Build example_env (Context 1) (Writer 1) example_tags
       [docker_app ''/src/app'', custom_tool, bazel_lib, buildpack_web, jib_svc ''/src/maven'']
       (example_session False)
     = (([\<lparr>build_ImageName = ''app'', build_Tag = ''gcr.io/p/app:v1''\<rparr>,
          \<lparr>build_ImageName = ''tool'', build_Tag = ''gcr.io/p/tool:v1''\<rparr>],
         Some (Wrap (Foreign ''bazel: exit status 1'') ''build artifact'')),
        \<lparr>builder = \<lparr> localCluster = True, kubeContext = ''minikube'', pushImages = False,
                      insecureRegistries = Map.empty, builtImages = [''sha256:abc'', ''sha256:c0de''] \<rparr>,
         world = 5,
         calls = [Call_Fprintf (Writer 1)
                    (''Found [minikube] context, using local docker daemon.'' @ [CHR 0x0A]),
                  Call_buildDocker (Context 1) (Writer 1) (docker_app ''/src/app'') ''gcr.io/p/app:v1'',
                  Call_TagWithImageID (Context 1) ''gcr.io/p/app:v1'' ''sha256:abc'',
                  Call_buildCustom (Context 1) (Writer 1) custom_tool ''gcr.io/p/tool:v1'',
                  Call_TagWithImageID (Context 1) ''gcr.io/p/tool:v1'' ''sha256:c0de'',
                  Call_buildBazel (Context 1) (Writer 1) bazel_lib ''gcr.io/p/lib:v1'',
                  Call_Close]\<rparr>)"
proof -
  let ?s1 = "\<lparr>builder = \<lparr> localCluster = True, kubeContext = ''minikube'', pushImages = False,
                      insecureRegistries = Map.empty, builtImages = [''sha256:abc'', ''sha256:c0de''] \<rparr>,
         world = 4 :: nat,
         calls = [Call_Fprintf (Writer 1)
                    (''Found [minikube] context, using local docker daemon.'' @ [CHR 0x0A]),
                  Call_buildDocker (Context 1) (Writer 1) (docker_app ''/src/app'') ''gcr.io/p/app:v1'',
                  Call_TagWithImageID (Context 1) ''gcr.io/p/app:v1'' ''sha256:abc'',
                  Call_buildCustom (Context 1) (Writer 1) custom_tool ''gcr.io/p/tool:v1'',
                  Call_TagWithImageID (Context 1) ''gcr.io/p/tool:v1'' ''sha256:c0de'']\<rparr>"
  have pre: "InSequence (Context 1) (Writer 1) example_tags [docker_app ''/src/app'', custom_tool]
        (buildArtifact example_env) (Build_banner (Writer 1) (example_session False))
      = (([\<lparr>build_ImageName = ''app'', build_Tag = ''gcr.io/p/app:v1''\<rparr>,
           \<lparr>build_ImageName = ''tool'', build_Tag = ''gcr.io/p/tool:v1''\<rparr>], None), ?s1)"
    by (simp add: buildArtifact_def runBuildForArtifact_def invoke_def append_builtImages_def
        Build_banner_def emit_def example_defs)
  have fail: "runBuildForArtifact example_env (Context 1) (Writer 1) bazel_lib
        (example_tags (ImageName bazel_lib)) ?s1
      = (('''', Some (Foreign ''bazel: exit status 1'')),
         ?s1\<lparr>world := 5,
              calls := calls ?s1 @ [Call_buildBazel (Context 1) (Writer 1) bazel_lib ''gcr.io/p/lib:v1'']\<rparr>)"
    by (simp add: runBuildForArtifact_def invoke_def example_defs)
  show ?thesis
    using Build_first_failure [OF pre fail, of "[buildpack_web, jib_svc ''/src/maven'']"]
    by (simp add: Build_deferred_def invoke_def example_env_def)
qed

end
